theory Spec2Isabelle
  imports Complex_Main "HOL-Library.Word"
begin

unbundle bit_operations_syntax

section \<open>Common conventions\<close>

text \<open>
  The library stores readings as C \<open>float\<close>. They are modelled as \<^typ>\<open>real\<close>: every
  property below depends only on which branch the code takes (a sign test, an equality with
  the failure value) and on which divisor is used, never on the rounding of a product or a
  sum. The leading underscore of the member names (\<open>_sensorStatus\<close>, \<open>_rainPerTip\<close>,
  ...) is dropped, since an Isabelle name starts with a letter.
\<close>

definition sentinel :: real where
  "sentinel = - 9999"

text \<open>
  The per-index accumulation state of a sensor: \<open>sensorValues[]\<close> (the name used in
  \<open>DecagonCTD.h\<close>) and the parallel success counters of the data model.
\<close>

record accum =
  sensorValues :: "real list"
  numReadingsCompleted :: "nat list"

text \<open>
  Modelled from the spec: \<open>Sensor::verifyAndAddMeasurementResult\<close> is called by
  \<open>RainCounterI2C.cpp\<close> but defined in the sensor base class, which is not among the
  sources. Following section 4.2 step 6 and the data model: a raw reading equal to the
  failure value contributes nothing and counts nothing; a successful one is added into
  \<open>values[index]\<close> and increments the success counter of that index. An accumulator holds
  the failure value until its first success, which therefore replaces it. An index outside
  the arrays (undefined behaviour in C++) leaves the state as it is.
\<close>

definition verifyAndAddMeasurementResult ::
    "nat \<Rightarrow> real \<Rightarrow> 'a accum_scheme \<Rightarrow> 'a accum_scheme" where
  "verifyAndAddMeasurementResult resultNumber resultValue s =
     (if resultValue = sentinel
         \<or> length (sensorValues s) \<le> resultNumber
         \<or> length (numReadingsCompleted s) \<le> resultNumber
      then s
      else s\<lparr>sensorValues := (sensorValues s)[resultNumber :=
                 (if numReadingsCompleted s ! resultNumber = 0 then resultValue
                  else sensorValues s ! resultNumber + resultValue)],
             numReadingsCompleted := (numReadingsCompleted s)[resultNumber :=
                 Suc (numReadingsCompleted s ! resultNumber)]\<rparr>)"

section \<open>The I2C rain counter (\<open>RainCounterI2C.cpp\<close>)\<close>

subsection \<open>The Arduino collaborators\<close>

text \<open>
  \<open>Wire.requestFrom(address, quantity)\<close> asks the device at \<open>address\<close> for
  \<open>quantity\<close> bytes, stores what arrives in the receive buffer and returns how many bytes
  arrived. The bus is a parameter: the bytes each address would answer with.
  \<open>Wire.read()\<close> takes the next byte of the buffer, or returns \<open>-1\<close> when it is empty.
\<close>

definition Wire_requestFrom :: "(int \<Rightarrow> 8 word list) \<Rightarrow> int \<Rightarrow> nat \<Rightarrow> nat \<times> 8 word list" where
  "Wire_requestFrom bus address quantity =
     (let buf = take quantity (bus address) in (length buf, buf))"

fun Wire_read :: "8 word list \<Rightarrow> int \<times> 8 word list" where
  "Wire_read [] = (- 1, [])"
| "Wire_read (b # bs) = (uint b, bs)"

text \<open>
  \<open>String(value, base)\<close> on an unsigned value prints it with \<open>utoa\<close>: digits
  \<open>0\<close>-\<open>9\<close> then lower-case letters, most significant first, no padding. The
  library takes a base from 2 to 36; below 2 the model prints one digit so that the
  recursion is total, and \<open>HEX\<close> is 16.
\<close>

definition digitChar :: "nat \<Rightarrow> char" where
  "digitChar d = ''0123456789abcdefghijklmnopqrstuvwxyz'' ! d"

function utoa :: "nat \<Rightarrow> nat \<Rightarrow> string" where
  "utoa val base =
     (if base < 2 \<or> val < base then [digitChar val]
      else utoa (val div base) base @ [digitChar (val mod base)])"
  by pat_completeness auto
termination
  by (relation "measure (\<lambda>(val, base). val)") auto

declare utoa.simps [simp del]

definition HEX :: nat where
  "HEX = 16"

subsection \<open>The sensor object\<close>

text \<open>
  The members the two methods read or write (\<open>_i2cAddressHex\<close>, \<open>_rainPerTip\<close>,
  \<open>_millisMeasurementRequested\<close>, \<open>_sensorStatus\<close>, and the accumulation state behind
  \<open>verifyAndAddMeasurementResult\<close>), together with the three timing members of the base
  class that \<open>DecagonCTD.h\<close> names, which no method here touches.
\<close>

record RainCounterI2C = accum +
  warmUpTime_ms :: "32 word"
  stabilizationTime_ms :: "32 word"
  measurementTime_ms :: "32 word"
  i2cAddressHex :: "8 word"
  rainPerTip :: real
  millisMeasurementRequested :: "32 word"
  sensorStatus :: "8 word"

text \<open>\<open>RainCounterI2C::getSensorLocation\<close>: the string built, and the object after the call.\<close>

definition getSensorLocation :: "RainCounterI2C \<Rightarrow> string \<times> RainCounterI2C" where
  "getSensorLocation s =
     (let address = ''I2C_0x'';
          address = address @ utoa (unat (i2cAddressHex s)) HEX
      in (address, s))"

text \<open>
  The body of \<open>RainCounterI2C::addSingleMeasurementResult\<close> up to the two calls of
  \<open>verifyAndAddMeasurementResult\<close>: the raw readings \<open>(rain, tips)\<close> of this attempt.
  \<open>tips\<close> is an \<open>int16_t\<close>; \<open>(Byte2 << 8) | Byte1\<close> is stored into it keeping the low
  sixteen bits.
\<close>

definition concatenateTips :: "8 word \<Rightarrow> 8 word \<Rightarrow> 16 word" where
  "concatenateTips Byte1 Byte2 = push_bit 8 (ucast Byte2) OR ucast Byte1"

definition rawReadings :: "(int \<Rightarrow> 8 word list) \<Rightarrow> RainCounterI2C \<Rightarrow> real \<times> 16 word" where
  "rawReadings bus s =
     (let rain = sentinel;
          tips = (- 9999 :: 16 word);
          (received, buf) = Wire_requestFrom bus (uint (i2cAddressHex s)) 2
      in if received \<noteq> 0 then
           (let (r1, buf) = Wire_read buf;
                Byte1 = (word_of_int r1 :: 8 word);
                (r2, buf) = Wire_read buf;
                Byte2 = (word_of_int r2 :: 8 word);
                tips = concatenateTips Byte1 Byte2;
                rain = real_of_int (sint tips) * rainPerTip s;
                tips = (if sint tips < 0 then - 9999 else tips);
                rain = (if rain < 0 then sentinel else rain)
            in (rain, tips))
         else (rain, tips))"

text \<open>
  \<open>RainCounterI2C::addSingleMeasurementResult\<close>. The variable numbers
  \<open>BUCKET_RAIN_VAR_NUM\<close> and \<open>BUCKET_TIPS_VAR_NUM\<close> are defined in
  \<open>RainCounterI2C.h\<close>, which is not among the sources: they are parameters. The tips
  reading is handed over as the number it denotes. The result is the value returned and the
  object after the call.
\<close>

definition addSingleMeasurementResult ::
    "nat \<Rightarrow> nat \<Rightarrow> (int \<Rightarrow> 8 word list) \<Rightarrow> RainCounterI2C \<Rightarrow> bool \<times> RainCounterI2C" where
  "addSingleMeasurementResult BUCKET_RAIN_VAR_NUM BUCKET_TIPS_VAR_NUM bus s =
     (let (rain, tips) = rawReadings bus s;
          s = verifyAndAddMeasurementResult BUCKET_RAIN_VAR_NUM rain s;
          s = verifyAndAddMeasurementResult BUCKET_TIPS_VAR_NUM (real_of_int (sint tips)) s;
          s = s\<lparr>millisMeasurementRequested := 0\<rparr>;
          s = s\<lparr>sensorStatus := sensorStatus s AND 0b10011111\<rparr>
      in (True, s))"

text \<open>A reader of the location tag: the number a string of lower-case hexadecimal digits denotes.\<close>

definition lowerHexDigit :: "char \<Rightarrow> nat option" where
  "lowerHexDigit c =
     (if c \<in> set ''0123456789abcdef''
      then Some (length (takeWhile (\<lambda>d. d \<noteq> c) ''0123456789abcdef''))
      else None)"

fun lowerHexAcc :: "nat option \<Rightarrow> string \<Rightarrow> nat option" where
  "lowerHexAcc acc [] = acc"
| "lowerHexAcc acc (c # cs) =
     (case lowerHexDigit c of
        None \<Rightarrow> None
      | Some d \<Rightarrow> lowerHexAcc (Some (case acc of None \<Rightarrow> d | Some a \<Rightarrow> 16 * a + d)) cs)"

definition lowerHexValue :: "string \<Rightarrow> nat option" where
  "lowerHexValue cs = lowerHexAcc None cs"


text \<open>A rain counter as it stands between two calls, used to run the code on concrete inputs.\<close>

definition bucket :: "8 word \<Rightarrow> RainCounterI2C" where
  "bucket st =
     \<lparr>sensorValues = [sentinel, sentinel], numReadingsCompleted = [0, 0],
      warmUpTime_ms = 0, stabilizationTime_ms = 0, measurementTime_ms = 0,
      i2cAddressHex = 0x08, rainPerTip = 2 / 10,
      millisMeasurementRequested = 1234, sensorStatus = st\<rparr>"

text \<open>A bus on which every address answers with the same bytes.\<close>

definition busAnswering :: "8 word list \<Rightarrow> int \<Rightarrow> 8 word list" where
  "busAnswering bytes address = bytes"

section \<open>The Decagon CTD (\<open>DecagonCTD.h\<close>)\<close>

definition CTD_NUM_VARIABLES :: nat where "CTD_NUM_VARIABLES = 3"
definition CTD_WARM_UP_TIME_MS :: "32 word" where "CTD_WARM_UP_TIME_MS = 500"
definition CTD_STABILIZATION_TIME_MS :: "32 word" where "CTD_STABILIZATION_TIME_MS = 0"
definition CTD_MEASUREMENT_TIME_MS :: "32 word" where "CTD_MEASUREMENT_TIME_MS = 500"

definition CTD_COND_RESOLUTION :: nat where "CTD_COND_RESOLUTION = 1"
definition CTD_COND_VAR_NUM :: nat where "CTD_COND_VAR_NUM = 2"
definition CTD_COND_VAR_NAME :: string where "CTD_COND_VAR_NAME = ''specificConductance''"
definition CTD_COND_UNIT_NAME :: string where "CTD_COND_UNIT_NAME = ''microsiemenPerCentimeter''"
definition CTD_COND_DEFAULT_CODE :: string where "CTD_COND_DEFAULT_CODE = ''CTDcond''"

section \<open>The generic sensor lifecycle\<close>

text \<open>
  The sensor and variable base classes (the status model, the timing gates, the averaging
  and the binding of variables) are not among the sources; only their callers and
  subclasses are. Everything in this section is modelled from the spec, section by section.
\<close>

subsection \<open>MeasurementTimer\<close>

text \<open>
  Modelled from the spec: the timing gate of section 4.1, which is not among the sources.
  \<open>hasElapsed\<close> is true iff the start timestamp is set and \<open>now - startTimestamp >=
  requiredDuration\<close> in unsigned modular arithmetic. Timestamps are the 32-bit millisecond
  counter; a start timestamp is a timestamp or unset.
\<close>

definition hasElapsed :: "32 word option \<Rightarrow> 32 word \<Rightarrow> 32 word \<Rightarrow> bool" where
  "hasElapsed startTimestamp requiredDuration now =
     (case startTimestamp of
        None \<Rightarrow> False
      | Some t \<Rightarrow> requiredDuration \<le> now - t)"

subsection \<open>Sensor\<close>

text \<open>
  Modelled from the spec: the states of section 4.2, which the status of a sensor combines
  (the status model of the base class is not among the sources). \<open>Idle\<close> is the empty set
  of flags.
\<close>

datatype flag =
    Powered | WakeRequested | WarmedUp | StabilizationStarted | Stabilized
  | MeasurementRequested | MeasurementComplete | Errored

text \<open>
  Modelled from the spec: the Sensor of section 3 (the base class is not among the
  sources). The accumulators \<open>values[]\<close> and the success counters are the fields of
  \<^typ>\<open>accum\<close>. \<open>powerPin\<close> is the \<open>int8_t\<close> that the constructors take, \<open>-1\<close> for a
  sensor that is always powered; the pin itself is hardware and not part of the state.
\<close>

record Sensor = accum +
  name :: string
  powerPin :: "8 word"
  numReturnedValues :: nat
  warmUpTime :: "32 word"
  stabilizationTime :: "32 word"
  measurementTime :: "32 word"
  measurementsToAverage :: nat
  status :: "flag set"
  measurementStartTime :: "32 word option"

text \<open>
  Modelled from the spec: construction of a sensor with fixed timing and configuration
  (section 3, Lifecycle). A new sensor is idle, its start timestamp is unset, and no reading
  has completed, so every accumulator holds the failure value.
\<close>

definition newSensor ::
    "string \<Rightarrow> nat \<Rightarrow> 32 word \<Rightarrow> 32 word \<Rightarrow> 32 word \<Rightarrow> 8 word \<Rightarrow> nat \<Rightarrow> Sensor" where
  "newSensor sensorName numValues warmUp stabilization measurement pin toAverage =
     \<lparr>sensorValues = replicate numValues sentinel,
      numReadingsCompleted = replicate numValues 0,
      name = sensorName, powerPin = pin, numReturnedValues = numValues,
      warmUpTime = warmUp, stabilizationTime = stabilization, measurementTime = measurement,
      measurementsToAverage = toAverage, status = {}, measurementStartTime = None\<rparr>"

text \<open>
  The constructor \<open>DecagonCTD(SDI12address, powerPin, dataPin, measurementsToAverage)\<close>
  of \<open>DecagonCTD.h\<close>: it hands the name, the variable count and the three timing constants
  to the constructor of the SDI-12 parent class, for which \<open>newSensor\<close> stands. The address
  and the data pin belong to the transport; the three overloads differ only in the type of
  the address.
\<close>

definition DecagonCTD :: "char \<Rightarrow> 8 word \<Rightarrow> 8 word \<Rightarrow> 8 word \<Rightarrow> Sensor" where
  "DecagonCTD SDI12address pin dataPin toAverage =
     newSensor ''DecagonCTD'' CTD_NUM_VARIABLES CTD_WARM_UP_TIME_MS
       CTD_STABILIZATION_TIME_MS CTD_MEASUREMENT_TIME_MS pin (unat toAverage)"

text \<open>
  Modelled from the spec: section 4.2 step 9, second half. The accumulators are reset at
  the start of a cycle, not on power-down.
\<close>

definition clearValues :: "Sensor \<Rightarrow> Sensor" where
  "clearValues s =
     s\<lparr>sensorValues := replicate (numReturnedValues s) sentinel,
       numReadingsCompleted := replicate (numReturnedValues s) 0\<rparr>"

text \<open>Modelled from the spec: section 4.2 step 1. Sets \<open>Powered\<close>; records no timestamp.\<close>

definition powerUp :: "Sensor \<Rightarrow> Sensor" where
  "powerUp s = s\<lparr>status := insert Powered (status s)\<rparr>"

text \<open>
  Modelled from the spec: section 4.2 step 2. \<open>ok\<close> is the outcome of the driver's
  \<open>performWake\<close>. Success arms the start timestamp and sets \<open>WakeRequested\<close>; failure
  sets \<open>Errored\<close>.
\<close>

definition wake :: "32 word \<Rightarrow> bool \<Rightarrow> Sensor \<Rightarrow> Sensor" where
  "wake now ok s =
     (if ok then s\<lparr>status := insert WakeRequested (status s), measurementStartTime := Some now\<rparr>
      else s\<lparr>status := insert Errored (status s)\<rparr>)"

text \<open>Modelled from the spec: section 4.2 step 3.\<close>

definition isWarmedUp :: "32 word \<Rightarrow> Sensor \<Rightarrow> bool" where
  "isWarmedUp now s = hasElapsed (measurementStartTime s) (warmUpTime s) now"

text \<open>
  Modelled from the spec: section 4.2 step 4. \<open>ok\<close> is the outcome of the driver's
  \<open>performMeasurementTrigger\<close>. Success rearms the start timestamp and sets
  \<open>MeasurementRequested\<close>; a prior \<open>MeasurementComplete\<close> is cleared. After a failed
  trigger no measurement is requested.
\<close>

definition startSingleMeasurement :: "32 word \<Rightarrow> bool \<Rightarrow> Sensor \<Rightarrow> Sensor" where
  "startSingleMeasurement now ok s =
     (if ok
      then s\<lparr>status := insert MeasurementRequested (status s - {MeasurementComplete}),
             measurementStartTime := Some now\<rparr>
      else s\<lparr>status := status s - {MeasurementRequested, MeasurementComplete},
             measurementStartTime := None\<rparr>)"

text \<open>
  Modelled from the spec: section 4.2 step 5. The gate is evaluated only while the request
  flag is set.
\<close>

definition isMeasurementComplete :: "32 word \<Rightarrow> Sensor \<Rightarrow> bool" where
  "isMeasurementComplete now s =
     (MeasurementRequested \<in> status s
      \<and> hasElapsed (measurementStartTime s) (measurementTime s) now)"

text \<open>
  Modelled from the spec: section 4.2 step 6 and the ordering property of section 8.
  \<open>raw\<close> is the driver's \<open>collectRawReadings\<close>: the raw reading of every output index,
  the failure value where the reading failed. Without a requested measurement the call
  changes nothing. Otherwise every index is verified and added on its own, the request flag
  and the timestamp are cleared and \<open>MeasurementComplete\<close> is set.
\<close>

definition Sensor_addSingleMeasurementResult :: "(nat \<Rightarrow> real) \<Rightarrow> Sensor \<Rightarrow> Sensor" where
  "Sensor_addSingleMeasurementResult raw s =
     (if MeasurementRequested \<in> status s
      then (fold (\<lambda>i. verifyAndAddMeasurementResult i (raw i)) [0..<numReturnedValues s] s)
             \<lparr>status := insert MeasurementComplete (status s - {MeasurementRequested}),
              measurementStartTime := None\<rparr>
      else s)"

text \<open>
  Modelled from the spec: one round of section 4.2 steps 4 to 6. An attempt is a trigger at
  a time \<open>now\<close> with its outcome, followed by the collection of the raw readings; polling
  the measurement gate in between changes no state.
\<close>

type_synonym attempt = "32 word \<times> bool \<times> (nat \<Rightarrow> real)"

fun measureOnce :: "attempt \<Rightarrow> Sensor \<Rightarrow> Sensor" where
  "measureOnce (now, ok, raw) s =
     Sensor_addSingleMeasurementResult raw (startSingleMeasurement now ok s)"

text \<open>
  Modelled from the spec: the first stopping condition of section 4.2 step 7, every success
  counter has reached \<open>measurementsToAverage\<close>.
\<close>

definition targetReached :: "Sensor \<Rightarrow> bool" where
  "targetReached s = list_all (\<lambda>c. measurementsToAverage s \<le> c) (numReadingsCompleted s)"

text \<open>
  Modelled from the spec: section 4.2 step 7. The attempts the environment allows are the
  retry budget, which is finite; the rounds stop when the target is reached or the budget is
  used up.
\<close>

fun averagingRounds :: "attempt list \<Rightarrow> Sensor \<Rightarrow> Sensor" where
  "averagingRounds [] s = s"
| "averagingRounds (a # budget) s =
     (if targetReached s then s else averagingRounds budget (measureOnce a s))"

text \<open>
  Modelled from the spec: section 4.2 step 8 and the error conditions of section 4.2. The
  final value of an index is its accumulated sum divided by its success count, or the
  failure value when nothing succeeded; an index without any success sets \<open>Errored\<close>.
\<close>

definition averageMeasurements :: "Sensor \<Rightarrow> Sensor" where
  "averageMeasurements s =
     s\<lparr>sensorValues :=
         map2 (\<lambda>v c. if c = 0 then sentinel else v / real c)
           (sensorValues s) (numReadingsCompleted s),
       status := (if 0 \<in> set (numReadingsCompleted s) then insert Errored (status s)
                  else status s)\<rparr>"

text \<open>
  Modelled from the spec: section 4.2 step 9. All cycle flags are cleared back to idle and
  the timestamp is unset; the accumulators keep the last result.
\<close>

definition powerDown :: "Sensor \<Rightarrow> Sensor" where
  "powerDown s = s\<lparr>status := {}, measurementStartTime := None\<rparr>"

text \<open>
  The attempts that \<open>averagingRounds\<close> really makes out of a budget, and the successful
  raw readings of one index among a list of attempts: the vocabulary of the statements
  about averaging.
\<close>

fun attemptsMade :: "attempt list \<Rightarrow> Sensor \<Rightarrow> attempt list" where
  "attemptsMade [] s = []"
| "attemptsMade (a # budget) s =
     (if targetReached s then [] else a # attemptsMade budget (measureOnce a s))"

fun succeeded :: "nat \<Rightarrow> attempt \<Rightarrow> bool" where
  "succeeded i (now, ok, raw) = (ok \<and> raw i \<noteq> sentinel)"

fun reading :: "nat \<Rightarrow> attempt \<Rightarrow> real" where
  "reading i (now, ok, raw) = raw i"

definition successes :: "nat \<Rightarrow> attempt list \<Rightarrow> real list" where
  "successes i as = map (reading i) (filter (succeeded i) as)"

subsection \<open>Variable\<close>

text \<open>
  Modelled from the spec: the usage faults of a read (sections 3 and 7): a variable without
  a parent, and an index that is not valid for the parent.
\<close>

datatype fault = UnboundVariable | IndexOutOfRange

text \<open>
  Modelled from the spec: the Variable of sections 3 and 4.3 (the base class is not among
  the sources). The parent is a reference: the address of a sensor, or none for a variable
  that is not bound yet.
\<close>

record Variable =
  parentSensor :: "nat option"
  variableIndex :: nat
  resolution :: nat
  varName :: string
  varUnit :: string
  shortCode :: string
  externalId :: string

text \<open>
  Modelled from the spec: the two ways to construct a variable (section 3), with and
  without a parent.
\<close>

definition newVariable ::
    "nat option \<Rightarrow> nat \<Rightarrow> nat \<Rightarrow> string \<Rightarrow> string \<Rightarrow> string \<Rightarrow> string \<Rightarrow> Variable" where
  "newVariable parent varNum decimalResolution vName vUnit vCode uuid =
     \<lparr>parentSensor = parent, variableIndex = varNum, resolution = decimalResolution,
      varName = vName, varUnit = vUnit, shortCode = vCode, externalId = uuid\<rparr>"

text \<open>The two constructors of \<open>DecagonCTD_Cond\<close> in \<open>DecagonCTD.h\<close>.\<close>

definition DecagonCTD_Cond :: "nat \<Rightarrow> string \<Rightarrow> string \<Rightarrow> Variable" where
  "DecagonCTD_Cond parentSense uuid varCode =
     newVariable (Some parentSense) CTD_COND_VAR_NUM CTD_COND_RESOLUTION
       CTD_COND_VAR_NAME CTD_COND_UNIT_NAME varCode uuid"

definition DecagonCTD_Cond_default :: Variable where
  "DecagonCTD_Cond_default =
     newVariable None CTD_COND_VAR_NUM CTD_COND_RESOLUTION
       CTD_COND_VAR_NAME CTD_COND_UNIT_NAME CTD_COND_DEFAULT_CODE []"

text \<open>
  Modelled from the spec: the rounding of section 4.3. A value is rounded to the given
  number of decimal places; the failure value is returned as it is.
\<close>

definition roundTo :: "nat \<Rightarrow> real \<Rightarrow> real" where
  "roundTo places x =
     (if x = sentinel then sentinel else real_of_int (round (x * 10 ^ places)) / 10 ^ places)"

text \<open>
  Modelled from the spec: \<open>value()\<close> of section 4.3 and the unbound read of section 7
  (the variable base class is not among the sources). \<open>sensors\<close> gives the sensor object
  at each address. The read returns the parent's stored value of the variable's index,
  rounded; a read without a parent is the usage fault, not a number.
\<close>

definition Variable_value :: "(nat \<Rightarrow> Sensor) \<Rightarrow> Variable \<Rightarrow> fault + real" where
  "Variable_value sensors v =
     (case parentSensor v of
        None \<Rightarrow> Inl UnboundVariable
      | Some p \<Rightarrow>
          if variableIndex v < length (sensorValues (sensors p))
          then Inr (roundTo (resolution v) (sensorValues (sensors p) ! variableIndex v))
          else Inl IndexOutOfRange)"


section \<open>Vocabulary of the proofs and concrete inputs\<close>

text \<open>
  What one raw reading \<open>x\<close> does to an accumulator \<open>v\<close> with success count \<open>c\<close>, the
  verification of the first \<open>k\<close> indices in turn, and the sizing of the two arrays.
\<close>

definition newVal :: "real \<Rightarrow> nat \<Rightarrow> real \<Rightarrow> real" where
  "newVal v c x = (if x = sentinel then v else if c = 0 then x else v + x)"

definition newCnt :: "nat \<Rightarrow> real \<Rightarrow> nat" where
  "newCnt c x = (if x = sentinel then c else Suc c)"

definition addAll :: "(nat \<Rightarrow> real) \<Rightarrow> nat \<Rightarrow> Sensor \<Rightarrow> Sensor" where
  "addAll raw k s = fold (\<lambda>i. verifyAndAddMeasurementResult i (raw i)) [0..<k] s"

definition wellSized :: "Sensor \<Rightarrow> bool" where
  "wellSized s =
     (length (sensorValues s) = numReturnedValues s
      \<and> length (numReadingsCompleted s) = numReturnedValues s)"

text \<open>
  A sensor with one output that averages three readings, with the attempts
  \<open>10.0\<close>, failure, \<open>20.0\<close>; and a sensor with two outputs whose first output fails in
  every attempt while the second reads \<open>4.0\<close> and \<open>6.0\<close>.
\<close>

definition oneIndexSensor :: Sensor where
  "oneIndexSensor = newSensor ''example'' 1 500 0 500 (- 1) 3"

definition threeAttempts :: "attempt list" where
  "threeAttempts = [(0, True, \<lambda>i. 10), (600, True, \<lambda>i. sentinel), (1200, True, \<lambda>i. 20)]"

definition twoIndexSensor :: Sensor where
  "twoIndexSensor = newSensor ''example'' 2 500 0 500 (- 1) 2"

definition twoAttempts :: "attempt list" where
  "twoAttempts = [(0, True, \<lambda>i. if i = 1 then 4 else sentinel),
                  (600, True, \<lambda>i. if i = 1 then 6 else sentinel)]"

text \<open>A CTD on SDI-12 address \<open>1\<close>, its raw readings in one attempt, and the object store.\<close>

definition exampleCTD :: Sensor where
  "exampleCTD = DecagonCTD (CHR ''1'') 22 7 1"

definition exampleReadings :: "nat \<Rightarrow> real" where
  "exampleReadings i = real i + 7"

definition exampleSensors :: "nat \<Rightarrow> Sensor" where
  "exampleSensors address = exampleCTD"

section \<open>The rain counter: location tag\<close>

lemma lowerHexDigit_digitChar: "d < 16 \<Longrightarrow> lowerHexDigit (digitChar d) = Some d"
proof -
  assume "d < 16"
  then have "d \<in> {0,1,2,3,4,5,6,7,8,9,10,11,12,13,14,15}"
    by (simp add: insert_iff) arith
  then show ?thesis
    by (auto simp: lowerHexDigit_def digitChar_def)
qed

lemma lowerHexAcc_snoc:
  "xs \<noteq> [] \<Longrightarrow> lowerHexAcc acc (xs @ [c]) =
     (case lowerHexAcc acc xs of
        None \<Rightarrow> None
      | Some a \<Rightarrow> (case lowerHexDigit c of None \<Rightarrow> None | Some d \<Rightarrow> Some (16 * a + d)))"
proof (induction xs arbitrary: acc)
  case Nil
  then show ?case by simp
next
  case (Cons x xs)
  show ?case
  proof (cases "xs = []")
    case True
    then show ?thesis by (simp split: option.splits)
  next
    case False
    from Cons.IH [OF False] show ?thesis by (simp split: option.splits)
  qed
qed

lemma utoa_not_empty: "utoa n b \<noteq> []"
  by (subst utoa.simps) simp

lemma lowerHexValue_utoa: "lowerHexValue (utoa n 16) = Some n"
proof (induction n "16::nat" rule: utoa.induct)
  case (1 val)
  show ?case
  proof (cases "val < 16")
    case True
    then show ?thesis
      by (subst utoa.simps) (simp add: lowerHexValue_def lowerHexDigit_digitChar)
  next
    case False
    then have ih: "lowerHexValue (utoa (val div 16) 16) = Some (val div 16)"
      using 1 by simp
    have "utoa val 16 = utoa (val div 16) 16 @ [digitChar (val mod 16)]"
      using False by (subst utoa.simps) simp
    then show ?thesis
      using ih
      by (simp add: lowerHexValue_def lowerHexAcc_snoc utoa_not_empty lowerHexDigit_digitChar)
  qed
qed

text \<open>
  C8. For every stored I2C address, \<open>getSensorLocation\<close> returns \<open>I2C_0x\<close> followed by
  the address in lower-case hexadecimal: the first six characters are the prefix, the rest
  is read back by \<open>lowerHexValue\<close> (which accepts lower-case hexadecimal digits only) as
  the address. The sensor object is the same after the call.
\<close>

theorem getSensorLocation_tag:
  "fst (getSensorLocation s) = ''I2C_0x'' @ utoa (unat (i2cAddressHex s)) HEX
   \<and> take 6 (fst (getSensorLocation s)) = ''I2C_0x''
   \<and> lowerHexValue (drop 6 (fst (getSensorLocation s))) = Some (unat (i2cAddressHex s))
   \<and> snd (getSensorLocation s) = s"
  by (simp add: getSensorLocation_def HEX_def lowerHexValue_utoa)

lemma getSensorLocation_example:
  "fst (getSensorLocation ((bucket 0)\<lparr>i2cAddressHex := 0x5F\<rparr>)) = ''I2C_0x5f''"
  by (simp add: getSensorLocation_def HEX_def bucket_def utoa.simps digitChar_def)

section \<open>The rain counter: one measurement result\<close>

subsection \<open>The tip count\<close>

lemma sint_word16_of_int:
  "0 \<le> v \<Longrightarrow> v < 65536 \<Longrightarrow>
     sint (word_of_int v :: 16 word) = (if 32768 \<le> v then v - 65536 else v)"
proof -
  assume v: "0 \<le> v" "v < 65536"
  show ?thesis
  proof (cases "32768 \<le> v")
    case True
    have "v + 32768 = (v - 32768) + 65536" by simp
    then have "(v + 32768) mod 65536 = ((v - 32768) + 65536) mod 65536" by (simp only:)
    also have "\<dots> = (v - 32768) mod 65536" by (rule mod_add_self2)
    also have "\<dots> = v - 32768" using True v by (simp add: mod_pos_pos_trivial)
    finally have "(v + 32768) mod 65536 = v - 32768" .
    then show ?thesis using True by (simp add: int_word_sint)
  next
    case False
    then show ?thesis using v by (simp add: int_word_sint)
  qed
qed

lemma uint_ucast_byte: "uint (ucast (b :: 8 word) :: 16 word) = uint b"
  by (simp add: unsigned_ucast_eq take_bit_int_eq_self_iff) (use uint_lt2p [of b] in simp)

lemma uint_push_byte: "uint (push_bit 8 (ucast (b :: 8 word) :: 16 word)) = push_bit 8 (uint b)"
proof -
  have "uint b < 256" using uint_lt2p [of b] by simp
  then have "push_bit 8 (uint b) < 65536" by (simp add: push_bit_eq_mult)
  then have "take_bit 16 (push_bit 8 (uint b)) = push_bit 8 (uint b)"
    by (simp add: take_bit_int_eq_self_iff)
  then show ?thesis
    by (simp add: unsigned_push_bit_eq uint_ucast_byte)
qed

lemma uint_concatenateTips: "uint (concatenateTips b1 b2) = uint b2 * 256 + uint b1"
proof -
  have t: "take_bit 8 (uint b1) = uint b1"
    using uint_lt2p [of b1] by (simp add: take_bit_int_eq_self_iff)
  have "uint (concatenateTips b1 b2) = push_bit 8 (uint b2) OR uint b1"
    by (simp add: concatenateTips_def unsigned_or_eq uint_ucast_byte uint_push_byte)
  also have "\<dots> = concat_bit 8 (uint b1) (uint b2)"
    by (simp add: concat_bit_def t or.commute)
  also have "\<dots> = uint b1 + push_bit 8 (uint b2)"
    by (simp add: concat_bit_eq t)
  finally show ?thesis by (simp add: push_bit_eq_mult)
qed

lemma concatenateTips_sum: "concatenateTips b1 b2 = word_of_int (uint b2 * 256 + uint b1)"
  using uint_concatenateTips [of b1 b2] by (metis word_of_int_uint)

lemma sint_concatenateTips:
  "sint (concatenateTips b1 b2) =
     (if 128 \<le> b2 then uint b2 * 256 + uint b1 - 65536 else uint b2 * 256 + uint b1)"
proof -
  have b1: "0 \<le> uint b1" "uint b1 < 256" using uint_lt2p [of b1] by simp_all
  have b2: "0 \<le> uint b2" "uint b2 < 256" using uint_lt2p [of b2] by simp_all
  have c: "(128 \<le> b2) = (128 \<le> uint b2)" by (simp add: word_le_def)
  define v where "v = uint b2 * 256 + uint b1"
  have v: "0 \<le> v" "v < 65536" using b1 b2 by (simp_all add: v_def)
  have d: "(32768 \<le> v) = (128 \<le> uint b2)" using b1 b2 unfolding v_def by arith
  show ?thesis
    unfolding concatenateTips_sum c v_def [symmetric] using sint_word16_of_int [OF v] d by simp
qed

subsection \<open>The call as a whole\<close>

lemma verifyAndAdd_sentinel: "verifyAndAddMeasurementResult i (- 9999) s = s"
  by (simp add: verifyAndAddMeasurementResult_def sentinel_def)

lemma verifyAndAdd_status:
  "sensorStatus (verifyAndAddMeasurementResult i v s) = sensorStatus s"
  by (simp add: verifyAndAddMeasurementResult_def)

lemma verifyAndAdd_frame:
  "verifyAndAddMeasurementResult i v s =
     s\<lparr>sensorValues := sensorValues (verifyAndAddMeasurementResult i v s),
       numReadingsCompleted := numReadingsCompleted (verifyAndAddMeasurementResult i v s)\<rparr>"
  by (simp add: verifyAndAddMeasurementResult_def)

lemma verifyAndAdd_twice_frame:
  "verifyAndAddMeasurementResult t y (verifyAndAddMeasurementResult r x s) =
     s\<lparr>sensorValues :=
         sensorValues (verifyAndAddMeasurementResult t y (verifyAndAddMeasurementResult r x s)),
       numReadingsCompleted :=
         numReadingsCompleted
           (verifyAndAddMeasurementResult t y (verifyAndAddMeasurementResult r x s))\<rparr>"
proof -
  define B where "B = verifyAndAddMeasurementResult t y (verifyAndAddMeasurementResult r x s)"
  define A where "A = verifyAndAddMeasurementResult r x s"
  have a: "A = s\<lparr>sensorValues := sensorValues A, numReadingsCompleted := numReadingsCompleted A\<rparr>"
    unfolding A_def by (rule verifyAndAdd_frame)
  have b: "B = A\<lparr>sensorValues := sensorValues B, numReadingsCompleted := numReadingsCompleted B\<rparr>"
    unfolding B_def A_def by (rule verifyAndAdd_frame)
  have "B = s\<lparr>sensorValues := sensorValues B, numReadingsCompleted := numReadingsCompleted B\<rparr>"
    by (subst b, subst a) simp
  then show ?thesis unfolding B_def .
qed

lemma addSingleMeasurementResult_eq:
  "addSingleMeasurementResult r t bus s =
     (True, (verifyAndAddMeasurementResult t (real_of_int (sint (snd (rawReadings bus s))))
               (verifyAndAddMeasurementResult r (fst (rawReadings bus s)) s))
            \<lparr>millisMeasurementRequested := 0, sensorStatus := sensorStatus s AND 0b10011111\<rparr>)"
  by (simp add: addSingleMeasurementResult_def Let_def verifyAndAdd_status split: prod.splits)

lemma addSingleMeasurementResult_frame:
  "snd (addSingleMeasurementResult r t bus s) =
     s\<lparr>sensorValues := sensorValues (snd (addSingleMeasurementResult r t bus s)),
       numReadingsCompleted := numReadingsCompleted (snd (addSingleMeasurementResult r t bus s)),
       millisMeasurementRequested := 0,
       sensorStatus := sensorStatus s AND 0b10011111\<rparr>"
proof -
  define B where "B = verifyAndAddMeasurementResult t (real_of_int (sint (snd (rawReadings bus s))))
                        (verifyAndAddMeasurementResult r (fst (rawReadings bus s)) s)"
  have b: "B = s\<lparr>sensorValues := sensorValues B, numReadingsCompleted := numReadingsCompleted B\<rparr>"
    unfolding B_def by (rule verifyAndAdd_twice_frame)
  have r: "snd (addSingleMeasurementResult r t bus s) =
             B\<lparr>millisMeasurementRequested := 0, sensorStatus := sensorStatus s AND 0b10011111\<rparr>"
    by (simp add: addSingleMeasurementResult_eq B_def)
  show ?thesis
    unfolding r by (subst b) simp
qed

lemma rawReadings_nothing_received:
  assumes "fst (Wire_requestFrom bus (uint (i2cAddressHex s)) 2) = 0"
  shows "rawReadings bus s = (sentinel, - 9999)"
proof -
  obtain n buf where w: "Wire_requestFrom bus (uint (i2cAddressHex s)) 2 = (n, buf)"
    by (cases "Wire_requestFrom bus (uint (i2cAddressHex s)) 2")
  then have "n = 0" using assms by simp
  then show ?thesis by (simp add: rawReadings_def w)
qed

lemma rawReadings_two_bytes:
  assumes "take 2 (bus (uint (i2cAddressHex s))) = [Byte1, Byte2]"
  shows "rawReadings bus s =
     (if real_of_int (sint (concatenateTips Byte1 Byte2)) * rainPerTip s < 0 then sentinel
      else real_of_int (sint (concatenateTips Byte1 Byte2)) * rainPerTip s,
      if sint (concatenateTips Byte1 Byte2) < 0 then - 9999 else concatenateTips Byte1 Byte2)"
  using assms by (simp add: rawReadings_def Wire_requestFrom_def Let_def)

text \<open>
  C3, as the code has it. The claim says that the call also sets a measurement-complete
  flag. \<open>RainCounterI2C::addSingleMeasurementResult\<close> only clears bits: started with the
  two measurement-request bits (5 and 6) set and nothing else, the status is \<open>0\<close> after the
  call, so no flag at all is set.
\<close>

theorem addSingleMeasurementResult_sets_no_flag:
  "sensorStatus (snd (addSingleMeasurementResult 0 1 (busAnswering [5, 0]) (bucket 0b01100000))) = 0"
  by (simp add: addSingleMeasurementResult_eq verifyAndAdd_status bucket_def)

text \<open>
  C3, amended. For every starting state and every answer of the bus, the call returns
  true, the two measurement-request bits (5 and 6) are clear and the measurement-request
  timestamp is \<open>0\<close> afterwards, whether the raw reading succeeded or failed; the call sets no
  status bit that was not set before.
\<close>

theorem addSingleMeasurementResult_clears_request:
  "fst (addSingleMeasurementResult r t bus s)
   \<and> \<not> bit (sensorStatus (snd (addSingleMeasurementResult r t bus s))) 5
   \<and> \<not> bit (sensorStatus (snd (addSingleMeasurementResult r t bus s))) 6
   \<and> millisMeasurementRequested (snd (addSingleMeasurementResult r t bus s)) = 0
   \<and> sensorStatus (snd (addSingleMeasurementResult r t bus s)) OR sensorStatus s = sensorStatus s"
  by (simp add: addSingleMeasurementResult_eq bit_and_iff or.commute)

text \<open>
  C4. When \<open>requestFrom\<close> reports that no byte was received, the call still returns
  true, both raw readings (rain and tips) are the failure value \<open>-9999\<close>, and the object
  changes only in the timestamp and the two request bits: nothing is accumulated.
\<close>

theorem addSingleMeasurementResult_no_bytes:
  assumes "fst (Wire_requestFrom bus (uint (i2cAddressHex s)) 2) = 0"
  shows "fst (addSingleMeasurementResult r t bus s)
       \<and> rawReadings bus s = (sentinel, - 9999)
       \<and> real_of_int (sint (snd (rawReadings bus s))) = sentinel
       \<and> snd (addSingleMeasurementResult r t bus s)
           = s\<lparr>millisMeasurementRequested := 0, sensorStatus := sensorStatus s AND 0b10011111\<rparr>"
  by (simp add: addSingleMeasurementResult_eq rawReadings_nothing_received [OF assms]
        sentinel_def verifyAndAdd_sentinel)

theorem addSingleMeasurementResult_no_bytes_witness:
  "fst (Wire_requestFrom (busAnswering []) (uint (i2cAddressHex (bucket 0x7F))) 2) = 0
   \<and> addSingleMeasurementResult 0 1 (busAnswering []) (bucket 0x7F)
       = (True, (bucket 0x1F)\<lparr>millisMeasurementRequested := 0\<rparr>)"
proof -
  have h: "fst (Wire_requestFrom (busAnswering []) (uint (i2cAddressHex (bucket 0x7F))) 2) = 0"
    by (simp add: Wire_requestFrom_def busAnswering_def)
  show ?thesis
    using h addSingleMeasurementResult_no_bytes [of "busAnswering []" "bucket 0x7F" 0 1, OF h]
    by (simp add: prod_eq_iff bucket_def)
qed

text \<open>
  C9. For every prior status, the call leaves the object as it was except for the
  per-index accumulation state (the sums and their success counters, written by
  \<open>verifyAndAddMeasurementResult\<close>), the measurement-request timestamp, which becomes
  \<open>0\<close>, and the status, which becomes the prior status AND \<open>0b10011111\<close>: bits 0 to 4 and
  bit 7 keep their prior values.
\<close>

theorem addSingleMeasurementResult_writes:
  "snd (addSingleMeasurementResult r t bus s) =
     s\<lparr>sensorValues := sensorValues (snd (addSingleMeasurementResult r t bus s)),
       numReadingsCompleted := numReadingsCompleted (snd (addSingleMeasurementResult r t bus s)),
       millisMeasurementRequested := 0,
       sensorStatus := sensorStatus s AND 0b10011111\<rparr>
   \<and> bit (sensorStatus (snd (addSingleMeasurementResult r t bus s))) 0 = bit (sensorStatus s) 0
   \<and> bit (sensorStatus (snd (addSingleMeasurementResult r t bus s))) 1 = bit (sensorStatus s) 1
   \<and> bit (sensorStatus (snd (addSingleMeasurementResult r t bus s))) 2 = bit (sensorStatus s) 2
   \<and> bit (sensorStatus (snd (addSingleMeasurementResult r t bus s))) 3 = bit (sensorStatus s) 3
   \<and> bit (sensorStatus (snd (addSingleMeasurementResult r t bus s))) 4 = bit (sensorStatus s) 4
   \<and> bit (sensorStatus (snd (addSingleMeasurementResult r t bus s))) 7 = bit (sensorStatus s) 7"
proof -
  have b: "bit (sensorStatus (snd (addSingleMeasurementResult r t bus s))) k
             = (bit (sensorStatus s) k \<and> bit (0b10011111 :: 8 word) k)" for k
    by (simp add: addSingleMeasurementResult_eq bit_and_iff)
  show ?thesis
    using addSingleMeasurementResult_frame [of r t bus s] by (simp add: b)
qed

text \<open>
  C10. The two received bytes are combined into the 16-bit value \<open>Byte2 * 256 + Byte1\<close>,
  read as signed. For every pair with \<open>Byte2 >= 128\<close> that value is
  \<open>Byte2 * 256 + Byte1 - 65536\<close>, which is negative; the tips reading is then \<open>-9999\<close>,
  and when \<open>rainPerTip > 0\<close> the rain reading is \<open>-9999\<close> too and nothing is accumulated.
\<close>

theorem rawReadings_high_byte:
  assumes "take 2 (bus (uint (i2cAddressHex s))) = [Byte1, Byte2]" and "128 \<le> Byte2"
  shows "concatenateTips Byte1 Byte2 = word_of_int (uint Byte2 * 256 + uint Byte1)
       \<and> sint (concatenateTips Byte1 Byte2) = uint Byte2 * 256 + uint Byte1 - 65536
       \<and> sint (concatenateTips Byte1 Byte2) < 0
       \<and> snd (rawReadings bus s) = - 9999
       \<and> (0 < rainPerTip s \<longrightarrow> fst (rawReadings bus s) = sentinel)
       \<and> (0 < rainPerTip s \<longrightarrow>
            sensorValues (snd (addSingleMeasurementResult r t bus s)) = sensorValues s
          \<and> numReadingsCompleted (snd (addSingleMeasurementResult r t bus s))
              = numReadingsCompleted s)"
proof -
  have v: "sint (concatenateTips Byte1 Byte2) = uint Byte2 * 256 + uint Byte1 - 65536"
    using assms(2) by (simp add: sint_concatenateTips)
  have b1: "uint Byte1 < 256" using uint_lt2p [of Byte1] by simp
  have b2: "uint Byte2 < 256" using uint_lt2p [of Byte2] by simp
  have neg: "sint (concatenateTips Byte1 Byte2) < 0"
    unfolding v using b1 b2 by simp
  have tips: "snd (rawReadings bus s) = - 9999"
    using neg by (simp add: rawReadings_two_bytes [of bus s Byte1 Byte2, OF assms(1)])
  have rain: "fst (rawReadings bus s) = sentinel" if "0 < rainPerTip s"
  proof -
    have "real_of_int (sint (concatenateTips Byte1 Byte2)) < 0"
      using neg by (simp only: of_int_less_0_iff)
    then have "real_of_int (sint (concatenateTips Byte1 Byte2)) * rainPerTip s < 0"
      using that by (rule mult_neg_pos)
    then show ?thesis
      by (simp add: rawReadings_two_bytes [of bus s Byte1 Byte2, OF assms(1)])
  qed
  have acc: "snd (addSingleMeasurementResult r t bus s)
           = s\<lparr>millisMeasurementRequested := 0, sensorStatus := sensorStatus s AND 0b10011111\<rparr>"
    if "0 < rainPerTip s"
    using rain [OF that] tips
    by (simp add: addSingleMeasurementResult_eq sentinel_def verifyAndAdd_sentinel)
  show ?thesis
    using v neg tips rain acc by (simp add: concatenateTips_sum)
qed

theorem rawReadings_high_byte_witness:
  "take 2 (busAnswering [0x34, 0x80] (uint (i2cAddressHex (bucket 0x7F)))) = [0x34, 0x80]
   \<and> (128 :: 8 word) \<le> 0x80
   \<and> 0 < rainPerTip (bucket 0x7F)
   \<and> sint (concatenateTips 0x34 0x80) = - 32716
   \<and> rawReadings (busAnswering [0x34, 0x80]) (bucket 0x7F) = (sentinel, - 9999)"
proof -
  have h1: "take 2 (busAnswering [0x34, 0x80] (uint (i2cAddressHex (bucket 0x7F)))) = [0x34, 0x80]"
    by (simp add: busAnswering_def)
  have h2: "(128 :: 8 word) \<le> 0x80" by simp
  have h3: "0 < rainPerTip (bucket 0x7F)" by (simp add: bucket_def)
  show ?thesis
    using h1 h2 h3
      rawReadings_high_byte [of "busAnswering [0x34, 0x80]" "bucket 0x7F" "0x34" "0x80" 0 1, OF h1 h2]
    by (simp add: prod_eq_iff)
qed

section \<open>The timing gate\<close>

lemma unat_diff32:
  "unat (now - t0 :: 32 word) = (unat now + 2 ^ 32 - unat t0) mod 2 ^ 32"
proof (cases "unat t0 \<le> unat now")
  case True
  have "unat now < 2 ^ 32" using unsigned_less [of now, where ?'a = nat] by simp
  then have "(unat now + 2 ^ 32 - unat t0) mod 2 ^ 32 = unat now - unat t0"
    using True by (simp add: mod_if)
  then show ?thesis using True by (simp add: unat_sub_if_size)
next
  case False
  have "unat t0 < 2 ^ 32" using unsigned_less [of t0, where ?'a = nat] by simp
  then have "(unat now + 2 ^ 32 - unat t0) mod 2 ^ 32 = unat now + 2 ^ 32 - unat t0"
    using False by simp
  then show ?thesis using False by (simp add: unat_sub_if_size word_size)
qed

text \<open>
  C1. For every start timestamp that is set, every required duration and every \<open>now\<close>,
  \<open>hasElapsed\<close> is true iff \<open>now - startTimestamp >= requiredDuration\<close> with the
  subtraction taken modulo \<open>2^32\<close>, also when the counter has wrapped between the two
  timestamps. It is true at the exact boundary \<open>requiredDuration = now - startTimestamp\<close>
  and for a required duration of \<open>0\<close>. Without wrap-around this is the comparison of the
  plain difference.
\<close>

theorem hasElapsed_modular:
  "hasElapsed (Some t0) d now = (d \<le> now - t0)
   \<and> hasElapsed (Some t0) d now = (unat d \<le> (unat now + 2 ^ 32 - unat t0) mod 2 ^ 32)
   \<and> hasElapsed (Some t0) (now - t0) now
   \<and> hasElapsed (Some t0) 0 now
   \<and> (t0 \<le> now \<longrightarrow> hasElapsed (Some t0) d now = (unat t0 + unat d \<le> unat now))"
proof -
  have b: "(d \<le> now - t0) = (unat d \<le> (unat now + 2 ^ 32 - unat t0) mod 2 ^ 32)"
    by (simp only: word_le_nat_alt unat_diff32)
  have c: "t0 \<le> now \<Longrightarrow> (d \<le> now - t0) = (unat t0 + unat d \<le> unat now)"
    by (auto simp: word_le_nat_alt unat_sub_if_size)
  show ?thesis
    using b c by (simp add: hasElapsed_def)
qed

theorem hasElapsed_modular_witness:
  "(100 :: 32 word) \<le> 600
   \<and> hasElapsed (Some 100) 500 600 \<and> \<not> hasElapsed (Some 100) 501 600
   \<and> hasElapsed (Some 0xFFFFFF00) 0x200 0x100 \<and> \<not> hasElapsed (Some 0xFFFFFF00) 0x201 0x100"
  using hasElapsed_modular [of 100 500 600] hasElapsed_modular [of 100 501 600]
        hasElapsed_modular [of "0xFFFFFF00" "0x200" "0x100"]
        hasElapsed_modular [of "0xFFFFFF00" "0x201" "0x100"]
  by simp

section \<open>Averaging\<close>

subsection \<open>One attempt\<close>

lemma verifyAndAdd_length [simp]:
  "length (sensorValues (verifyAndAddMeasurementResult i x s)) = length (sensorValues s)"
  "length (numReadingsCompleted (verifyAndAddMeasurementResult i x s))
     = length (numReadingsCompleted s)"
  by (simp_all add: verifyAndAddMeasurementResult_def)

lemma verifyAndAdd_nth:
  assumes "i < length (sensorValues s)" "i < length (numReadingsCompleted s)"
  shows "sensorValues (verifyAndAddMeasurementResult i x s) ! j =
           (if j = i then newVal (sensorValues s ! i) (numReadingsCompleted s ! i) x
            else sensorValues s ! j)"
    and "numReadingsCompleted (verifyAndAddMeasurementResult i x s) ! j =
           (if j = i then newCnt (numReadingsCompleted s ! i) x
            else numReadingsCompleted s ! j)"
  using assms by (simp_all add: verifyAndAddMeasurementResult_def newVal_def newCnt_def)

lemma verifyAndAdd_fields [simp]:
  "status (verifyAndAddMeasurementResult i x s) = status s"
  "numReturnedValues (verifyAndAddMeasurementResult i x s) = numReturnedValues s"
  "measurementsToAverage (verifyAndAddMeasurementResult i x s) = measurementsToAverage s"
  by (simp_all add: verifyAndAddMeasurementResult_def)

lemma addAll_Suc:
  "addAll raw (Suc k) s = verifyAndAddMeasurementResult k (raw k) (addAll raw k s)"
  by (simp add: addAll_def)

lemma addAll_length [simp]:
  "length (sensorValues (addAll raw k s)) = length (sensorValues s)"
  "length (numReadingsCompleted (addAll raw k s)) = length (numReadingsCompleted s)"
  by (induction k) (simp_all add: addAll_Suc, simp_all add: addAll_def)

lemma addAll_fields [simp]:
  "status (addAll raw k s) = status s"
  "numReturnedValues (addAll raw k s) = numReturnedValues s"
  "measurementsToAverage (addAll raw k s) = measurementsToAverage s"
  by (induction k) (simp_all add: addAll_Suc, simp_all add: addAll_def)

lemma addAll_nth:
  assumes "k \<le> length (sensorValues s)" "k \<le> length (numReadingsCompleted s)"
  shows "sensorValues (addAll raw k s) ! j =
           (if j < k then newVal (sensorValues s ! j) (numReadingsCompleted s ! j) (raw j)
            else sensorValues s ! j)
       \<and> numReadingsCompleted (addAll raw k s) ! j =
           (if j < k then newCnt (numReadingsCompleted s ! j) (raw j)
            else numReadingsCompleted s ! j)"
  using assms
proof (induction k arbitrary: j)
  case 0
  then show ?case by (simp add: addAll_def)
next
  case (Suc k)
  then have ih:
    "sensorValues (addAll raw k s) ! j =
       (if j < k then newVal (sensorValues s ! j) (numReadingsCompleted s ! j) (raw j)
        else sensorValues s ! j)"
    "numReadingsCompleted (addAll raw k s) ! j =
       (if j < k then newCnt (numReadingsCompleted s ! j) (raw j)
        else numReadingsCompleted s ! j)" for j
    by simp_all
  have k: "k < length (sensorValues (addAll raw k s))"
          "k < length (numReadingsCompleted (addAll raw k s))"
    using Suc.prems by simp_all
  show ?case
    unfolding addAll_Suc verifyAndAdd_nth [OF k] ih by (auto simp: less_Suc_eq)
qed

lemma Sensor_add_eq:
  "Sensor_addSingleMeasurementResult raw s =
     (if MeasurementRequested \<in> status s
      then (addAll raw (numReturnedValues s) s)
             \<lparr>status := insert MeasurementComplete (status s - {MeasurementRequested}),
              measurementStartTime := None\<rparr>
      else s)"
  by (simp add: Sensor_addSingleMeasurementResult_def addAll_def)

lemma startSingleMeasurement_fields [simp]:
  "sensorValues (startSingleMeasurement now ok s) = sensorValues s"
  "numReadingsCompleted (startSingleMeasurement now ok s) = numReadingsCompleted s"
  "numReturnedValues (startSingleMeasurement now ok s) = numReturnedValues s"
  "measurementsToAverage (startSingleMeasurement now ok s) = measurementsToAverage s"
  "MeasurementRequested \<in> status (startSingleMeasurement now ok s) = ok"
  by (simp_all add: startSingleMeasurement_def)

lemma measureOnce_fields [simp]:
  "numReturnedValues (measureOnce a s) = numReturnedValues s"
  "measurementsToAverage (measureOnce a s) = measurementsToAverage s"
  "length (sensorValues (measureOnce a s)) = length (sensorValues s)"
  "length (numReadingsCompleted (measureOnce a s)) = length (numReadingsCompleted s)"
  by (cases a; simp add: Sensor_add_eq)+

lemma measureOnce_wellSized: "wellSized s \<Longrightarrow> wellSized (measureOnce a s)"
  by (simp add: wellSized_def)

lemma measureOnce_nth:
  assumes "wellSized s" "j < numReturnedValues s"
  shows "sensorValues (measureOnce a s) ! j =
           (if succeeded j a
            then (if numReadingsCompleted s ! j = 0 then reading j a
                  else sensorValues s ! j + reading j a)
            else sensorValues s ! j)"
    and "numReadingsCompleted (measureOnce a s) ! j =
           (if succeeded j a then Suc (numReadingsCompleted s ! j)
            else numReadingsCompleted s ! j)"
proof -
  obtain now ok raw where a: "a = (now, ok, raw)" by (cases a)
  have le: "numReturnedValues s \<le> length (sensorValues (startSingleMeasurement now ok s))"
    "numReturnedValues s \<le> length (numReadingsCompleted (startSingleMeasurement now ok s))"
    using assms(1) by (simp_all add: wellSized_def)
  note n = addAll_nth [OF le, of raw j]
  show "sensorValues (measureOnce a s) ! j =
           (if succeeded j a
            then (if numReadingsCompleted s ! j = 0 then reading j a
                  else sensorValues s ! j + reading j a)
            else sensorValues s ! j)"
    using n assms(2) by (cases ok) (simp_all add: a Sensor_add_eq newVal_def)
  show "numReadingsCompleted (measureOnce a s) ! j =
           (if succeeded j a then Suc (numReadingsCompleted s ! j)
            else numReadingsCompleted s ! j)"
    using n assms(2) by (cases ok) (simp_all add: a Sensor_add_eq newCnt_def)
qed

subsection \<open>The rounds\<close>

lemma averagingRounds_fold:
  "averagingRounds budget s = fold measureOnce (attemptsMade budget s) s"
  by (induction budget arbitrary: s) simp_all

lemma fold_measureOnce_fields [simp]:
  "numReturnedValues (fold measureOnce as s) = numReturnedValues s"
  "measurementsToAverage (fold measureOnce as s) = measurementsToAverage s"
  "length (sensorValues (fold measureOnce as s)) = length (sensorValues s)"
  "length (numReadingsCompleted (fold measureOnce as s)) = length (numReadingsCompleted s)"
  by (induction as arbitrary: s) simp_all

lemma successes_Cons:
  "successes j (a # as) =
     (if succeeded j a then reading j a # successes j as else successes j as)"
  by (simp add: successes_def)

lemma fold_measureOnce_nth:
  assumes "wellSized s" "j < numReturnedValues s"
  shows "numReadingsCompleted (fold measureOnce as s) ! j
           = numReadingsCompleted s ! j + length (successes j as)
       \<and> sensorValues (fold measureOnce as s) ! j
           = (if successes j as = [] then sensorValues s ! j
              else (if numReadingsCompleted s ! j = 0 then 0 else sensorValues s ! j)
                   + sum_list (successes j as))"
  using assms
proof (induction as arbitrary: s)
  case Nil
  then show ?case by (simp add: successes_def)
next
  case (Cons a as)
  have ws: "wellSized (measureOnce a s)"
    using Cons.prems(1) by (rule measureOnce_wellSized)
  have j: "j < numReturnedValues (measureOnce a s)"
    using Cons.prems(2) by simp
  note ih = Cons.IH [OF ws j]
  note m = measureOnce_nth [OF Cons.prems]
  show ?case
    using ih unfolding m [of a] by (simp add: successes_Cons)
qed

lemma clearValues_fields [simp]:
  "sensorValues (clearValues s) = replicate (numReturnedValues s) sentinel"
  "numReadingsCompleted (clearValues s) = replicate (numReturnedValues s) 0"
  "numReturnedValues (clearValues s) = numReturnedValues s"
  "measurementsToAverage (clearValues s) = measurementsToAverage s"
  "status (clearValues s) = status s"
  by (simp_all add: clearValues_def)

lemma clearValues_wellSized: "wellSized (clearValues s)"
  by (simp add: wellSized_def)

lemma averagingRounds_nth:
  assumes "j < numReturnedValues s"
  shows "numReadingsCompleted (averagingRounds budget (clearValues s)) ! j
           = length (successes j (attemptsMade budget (clearValues s)))"
    and "sensorValues (averagingRounds budget (clearValues s)) ! j
           = (if successes j (attemptsMade budget (clearValues s)) = [] then sentinel
              else sum_list (successes j (attemptsMade budget (clearValues s))))"
proof -
  have j: "j < numReturnedValues (clearValues s)" using assms by simp
  note f = fold_measureOnce_nth [OF clearValues_wellSized j,
             of "attemptsMade budget (clearValues s)"]
  show "numReadingsCompleted (averagingRounds budget (clearValues s)) ! j
           = length (successes j (attemptsMade budget (clearValues s)))"
    using f assms by (simp add: averagingRounds_fold)
  show "sensorValues (averagingRounds budget (clearValues s)) ! j
           = (if successes j (attemptsMade budget (clearValues s)) = [] then sentinel
              else sum_list (successes j (attemptsMade budget (clearValues s))))"
    using f assms by (simp add: averagingRounds_fold)
qed

subsection \<open>The final values\<close>

lemma averageMeasurements_nth:
  assumes "j < length (sensorValues s)" "j < length (numReadingsCompleted s)"
  shows "sensorValues (averageMeasurements s) ! j =
           (if numReadingsCompleted s ! j = 0 then sentinel
            else sensorValues s ! j / real (numReadingsCompleted s ! j))"
  using assms by (simp add: averageMeasurements_def)

lemma final_value_nth:
  assumes "j < numReturnedValues s"
  shows "sensorValues (averageMeasurements (averagingRounds budget (clearValues s))) ! j =
     (if successes j (attemptsMade budget (clearValues s)) = [] then sentinel
      else sum_list (successes j (attemptsMade budget (clearValues s)))
           / real (length (successes j (attemptsMade budget (clearValues s)))))"
proof -
  have l: "j < length (sensorValues (averagingRounds budget (clearValues s)))"
          "j < length (numReadingsCompleted (averagingRounds budget (clearValues s)))"
    using assms by (simp_all add: averagingRounds_fold)
  show ?thesis
    unfolding averageMeasurements_nth [OF l] averagingRounds_nth [OF assms] by simp
qed

lemma final_errored:
  assumes "i < numReturnedValues s" "successes i (attemptsMade budget (clearValues s)) = []"
  shows "Errored \<in> status (averageMeasurements (averagingRounds budget (clearValues s)))"
proof -
  let ?r = "averagingRounds budget (clearValues s)"
  have l: "i < length (numReadingsCompleted ?r)"
    using assms(1) by (simp add: averagingRounds_fold)
  have "numReadingsCompleted ?r ! i = 0"
    using averagingRounds_nth(1) [OF assms(1), of budget] assms(2) by simp
  then have "0 \<in> set (numReadingsCompleted ?r)"
    using l by (metis nth_mem)
  then show ?thesis by (simp add: averageMeasurements_def)
qed

lemma powerDown_fields [simp]:
  "sensorValues (powerDown s) = sensorValues s"
  "status (powerDown s) = {}"
  "measurementStartTime (powerDown s) = None"
  by (simp_all add: powerDown_def)

lemmas run_simps =
  newSensor_def clearValues_def targetReached_def startSingleMeasurement_def
  Sensor_addSingleMeasurementResult_def verifyAndAddMeasurementResult_def
  averageMeasurements_def successes_def sentinel_def powerDown_def

lemma attemptsMade_three:
  "attemptsMade threeAttempts (clearValues oneIndexSensor) = threeAttempts"
  by (simp add: threeAttempts_def oneIndexSensor_def run_simps)

lemma attemptsMade_two:
  "attemptsMade twoAttempts (clearValues twoIndexSensor) = twoAttempts"
  by (simp add: twoAttempts_def twoIndexSensor_def run_simps eval_nat_numeral)

text \<open>
  C2. For every output index of a sensor, once the averaging rounds of a cycle are over
  and the average is taken, the final value of that index is the sum of its successful raw
  readings divided by the number of its successful readings, whatever
  \<open>measurementsToAverage\<close> and the number of attempts are (and the failure value when no
  reading succeeded). With \<open>measurementsToAverage = 3\<close> and the readings \<open>10.0\<close>, failure,
  \<open>20.0\<close> the final value is \<open>15.0\<close>: this is the witness.
\<close>

theorem average_over_successes:
  assumes "i < numReturnedValues s"
  shows "let made = attemptsMade budget (clearValues s);
             final = averageMeasurements (averagingRounds budget (clearValues s))
         in sensorValues final ! i =
              (if successes i made = [] then sentinel
               else sum_list (successes i made) / real (length (successes i made)))"
  using final_value_nth [OF assms] by (simp add: Let_def)

theorem average_over_successes_witness:
  "0 < numReturnedValues oneIndexSensor
   \<and> measurementsToAverage oneIndexSensor = 3
   \<and> length threeAttempts = 3
   \<and> successes 0 threeAttempts = [10, 20]
   \<and> sensorValues (averageMeasurements
        (averagingRounds threeAttempts (clearValues oneIndexSensor))) ! 0 = 15"
  using average_over_successes [of 0 oneIndexSensor threeAttempts]
  by (simp add: Let_def attemptsMade_three)
     (simp add: threeAttempts_def oneIndexSensor_def run_simps)

text \<open>
  C5. If every attempt of a cycle fails for an output index, the final value of that
  index is the failure value and \<open>Errored\<close> is set, while every other index of the same
  sensor that had a successful reading reports the average of its successful readings; the
  cycle is then powered down, which leaves the sensor idle and the final values readable.
\<close>

theorem failed_index_degrades_alone:
  assumes "i < numReturnedValues s"
      and "successes i (attemptsMade budget (clearValues s)) = []"
  shows "let made = attemptsMade budget (clearValues s);
             final = averageMeasurements (averagingRounds budget (clearValues s))
         in sensorValues final ! i = sentinel
          \<and> Errored \<in> status final
          \<and> (\<forall>j < numReturnedValues s. successes j made \<noteq> [] \<longrightarrow>
                sensorValues final ! j
                  = sum_list (successes j made) / real (length (successes j made)))
          \<and> sensorValues (powerDown final) = sensorValues final
          \<and> status (powerDown final) = {}"
  using final_value_nth [of _ s budget] final_errored [OF assms] assms
  by (simp add: Let_def)

theorem failed_index_degrades_alone_witness:
  "0 < numReturnedValues twoIndexSensor
   \<and> successes 0 (attemptsMade twoAttempts (clearValues twoIndexSensor)) = []
   \<and> sensorValues (averageMeasurements
        (averagingRounds twoAttempts (clearValues twoIndexSensor))) = [sentinel, 5]
   \<and> Errored \<in> status (averageMeasurements
        (averagingRounds twoAttempts (clearValues twoIndexSensor)))
   \<and> status (powerDown (averageMeasurements
        (averagingRounds twoAttempts (clearValues twoIndexSensor)))) = {}"
proof -
  have n: "numReturnedValues twoIndexSensor = 2"
    by (simp add: twoIndexSensor_def newSensor_def)
  have h1: "0 < numReturnedValues twoIndexSensor" by (simp add: n)
  have h2: "successes 0 (attemptsMade twoAttempts (clearValues twoIndexSensor)) = []"
    by (simp add: attemptsMade_two) (simp add: twoAttempts_def successes_def)
  have s1: "successes (Suc 0) twoAttempts = [4, 6]"
    by (simp add: twoAttempts_def successes_def sentinel_def)
  let ?f = "averageMeasurements (averagingRounds twoAttempts (clearValues twoIndexSensor))"
  have len: "length (sensorValues ?f) = 2"
    by (simp add: averageMeasurements_def averagingRounds_fold n)
  from failed_index_degrades_alone [OF h1 h2]
  have r: "sensorValues ?f ! 0 = sentinel" "Errored \<in> status ?f" "sensorValues ?f ! 1 = 5"
       "status (powerDown ?f) = {}"
    by (simp_all add: Let_def attemptsMade_two n s1 numeral_2_eq_2 All_less_Suc)
  have "sensorValues ?f = [sentinel, 5]"
    using len r(1,3) by (auto simp: list_eq_iff_nth_eq less_Suc_eq numeral_2_eq_2)
  then show ?thesis
    using h1 h2 r(2,4) by (simp only: simp_thms)
qed

section \<open>The scheduler sequence with the CTD timing\<close>

lemma fresh_round_values:
  assumes "sensorValues s = replicate (numReturnedValues s) sentinel"
      and "numReadingsCompleted s = replicate (numReturnedValues s) 0"
      and "MeasurementRequested \<in> status s"
  shows "sensorValues (Sensor_addSingleMeasurementResult raw s) = map raw [0..<numReturnedValues s]"
    and "sensorValues (averageMeasurements (Sensor_addSingleMeasurementResult raw s))
           = map raw [0..<numReturnedValues s]"
proof -
  let ?n = "numReturnedValues s"
  let ?r = "Sensor_addSingleMeasurementResult raw s"
  have le: "?n \<le> length (sensorValues s)" "?n \<le> length (numReadingsCompleted s)"
    by (simp_all add: assms(1,2))
  have v: "sensorValues ?r ! j = raw j" if "j < ?n" for j
    using addAll_nth [OF le, of raw j] that assms by (simp add: Sensor_add_eq newVal_def)
  have c: "numReadingsCompleted ?r ! j = (if raw j = sentinel then 0 else 1)" if "j < ?n" for j
    using addAll_nth [OF le, of raw j] that assms by (simp add: Sensor_add_eq newCnt_def)
  have l: "length (sensorValues ?r) = ?n" "length (numReadingsCompleted ?r) = ?n"
    using assms by (simp_all add: Sensor_add_eq)
  show "sensorValues ?r = map raw [0..<?n]"
    using v l by (simp add: list_eq_iff_nth_eq)
  have "sensorValues (averageMeasurements ?r) ! j = raw j" if "j < ?n" for j
    using averageMeasurements_nth [of j ?r] l that v [OF that] c [OF that] by simp
  moreover have "length (sensorValues (averageMeasurements ?r)) = ?n"
    using l by (simp add: averageMeasurements_def)
  ultimately show "sensorValues (averageMeasurements ?r) = map raw [0..<?n]"
    by (simp add: list_eq_iff_nth_eq)
qed

text \<open>
  C6. For a sensor with \<open>warmUpTime = 500\<close>, \<open>stabilizationTime = 0\<close>,
  \<open>measurementTime = 500\<close> and \<open>measurementsToAverage = 1\<close> (the constants of the Decagon
  CTD), at the start of a cycle: after \<open>powerUp\<close> and \<open>wake\<close> at \<open>now = 0\<close>,
  \<open>isWarmedUp\<close> holds at \<open>now = 500\<close>; after \<open>startSingleMeasurement\<close> at \<open>now = 500\<close>,
  \<open>isMeasurementComplete\<close> holds at \<open>now = 1000\<close> and not at \<open>now = 999\<close>; and
  \<open>addSingleMeasurementResult\<close> then leaves the single raw reading of every output index
  as its final value, also after the average is taken.
\<close>

theorem ctd_scheduler_sequence:
  assumes "warmUpTime s = 500" and "stabilizationTime s = 0"
      and "measurementTime s = 500" and "measurementsToAverage s = 1"
  shows "let s1 = wake 0 True (powerUp (clearValues s));
             s2 = startSingleMeasurement 500 True s1;
             s3 = Sensor_addSingleMeasurementResult raw s2
         in isWarmedUp 500 s1
          \<and> isMeasurementComplete 1000 s2
          \<and> \<not> isMeasurementComplete 999 s2
          \<and> sensorValues s3 = map raw [0..<numReturnedValues s]
          \<and> sensorValues (averageMeasurements s3) = map raw [0..<numReturnedValues s]"
proof -
  define s1 where "s1 = wake 0 True (powerUp (clearValues s))"
  define s2 where "s2 = startSingleMeasurement 500 True s1"
  have g1: "isWarmedUp 500 s1"
    using assms(1)
    by (simp add: s1_def isWarmedUp_def wake_def powerUp_def clearValues_def hasElapsed_def)
  have g2: "isMeasurementComplete 1000 s2" "\<not> isMeasurementComplete 999 s2"
    using assms(3)
    by (simp_all add: s2_def s1_def isMeasurementComplete_def startSingleMeasurement_def
         wake_def powerUp_def clearValues_def hasElapsed_def)
  have f: "sensorValues s2 = replicate (numReturnedValues s2) sentinel"
          "numReadingsCompleted s2 = replicate (numReturnedValues s2) 0"
          "MeasurementRequested \<in> status s2"
          "numReturnedValues s2 = numReturnedValues s"
    by (simp_all add: s2_def s1_def startSingleMeasurement_def wake_def powerUp_def
         clearValues_def)
  show ?thesis
    using g1 g2 fresh_round_values [OF f(1,2,3), of raw]
    by (simp add: Let_def s1_def [symmetric] s2_def [symmetric] f(4))
qed

theorem ctd_scheduler_sequence_witness:
  "warmUpTime exampleCTD = 500
   \<and> stabilizationTime exampleCTD = 0
   \<and> measurementTime exampleCTD = 500
   \<and> measurementsToAverage exampleCTD = 1
   \<and> clearValues exampleCTD = exampleCTD
   \<and> isWarmedUp 500 (wake 0 True (powerUp exampleCTD))
   \<and> isMeasurementComplete 1000
        (startSingleMeasurement 500 True (wake 0 True (powerUp exampleCTD)))
   \<and> \<not> isMeasurementComplete 999
        (startSingleMeasurement 500 True (wake 0 True (powerUp exampleCTD)))
   \<and> sensorValues (averageMeasurements (Sensor_addSingleMeasurementResult exampleReadings
        (startSingleMeasurement 500 True (wake 0 True (powerUp exampleCTD)))))
      = [7, 8, 9]"
proof -
  have h: "warmUpTime exampleCTD = 500" "stabilizationTime exampleCTD = 0"
          "measurementTime exampleCTD = 500" "measurementsToAverage exampleCTD = 1"
    by (simp_all add: exampleCTD_def DecagonCTD_def newSensor_def CTD_WARM_UP_TIME_MS_def
         CTD_STABILIZATION_TIME_MS_def CTD_MEASUREMENT_TIME_MS_def)
  have c: "clearValues exampleCTD = exampleCTD" "numReturnedValues exampleCTD = 3"
    by (simp_all add: exampleCTD_def DecagonCTD_def newSensor_def clearValues_def
         CTD_NUM_VARIABLES_def)
  have u: "map exampleReadings [0..<3] = [7, 8, 9]"
    by (simp add: upt_rec exampleReadings_def)
  show ?thesis
    using ctd_scheduler_sequence [OF h, of exampleReadings] h c u by (simp add: Let_def)
qed

section \<open>Reading a variable\<close>

text \<open>
  C7. \<open>value()\<close> on a variable that has no parent sensor signals the unbound-usage fault;
  it does not return the failure value \<open>-9999\<close> that a read of a failed sensor returns.
  The witness is the variable built by the default constructor of \<open>DecagonCTD_Cond\<close>,
  next to a bound one that reads a sensor without a result.
\<close>

theorem unbound_value_is_a_fault:
  assumes "parentSensor v = None"
  shows "Variable_value sensors v = Inl UnboundVariable
       \<and> Variable_value sensors v \<noteq> Inr sentinel"
  using assms by (simp add: Variable_value_def)

theorem unbound_value_is_a_fault_witness:
  "parentSensor DecagonCTD_Cond_default = None
   \<and> Variable_value exampleSensors DecagonCTD_Cond_default = Inl UnboundVariable
   \<and> Variable_value exampleSensors (DecagonCTD_Cond 0 [] CTD_COND_DEFAULT_CODE) = Inr sentinel"
proof -
  have h: "parentSensor DecagonCTD_Cond_default = None"
    by (simp add: DecagonCTD_Cond_default_def newVariable_def)
  have "Variable_value exampleSensors (DecagonCTD_Cond 0 [] CTD_COND_DEFAULT_CODE) = Inr sentinel"
    by (simp add: Variable_value_def DecagonCTD_Cond_def newVariable_def exampleSensors_def
        exampleCTD_def DecagonCTD_def newSensor_def CTD_NUM_VARIABLES_def CTD_COND_VAR_NUM_def
        roundTo_def)
  then show ?thesis using h unbound_value_is_a_fault [OF h] by simp
qed

end
